theory Spec2Isabelle
  imports Complex_Main
begin

section \<open>PotentialPair: the pair-potential force engine of HOOMD-blue\<close>

text \<open>
  A shallow embedding of \<^verbatim>\<open>src/pair/PotentialPair.h\<close>. The C++ type \<^verbatim>\<open>Scalar\<close> is
  modelled by the real numbers (rounding is not modelled), \<^verbatim>\<open>unsigned int\<close> indices by
  natural numbers (the source does no arithmetic on them outside the type-pair indexer),
  arrays by lists. Every \<^verbatim>\<open>throw\<close> and every \<^verbatim>\<open>assert\<close> of the source is an error value,
  and so is a division by a divisor that is zero as a real number. Underflow and overflow
  of \<^verbatim>\<open>Scalar\<close> arithmetic are outside the model: it does not say whether a product that
  is positive over the reals is zero on the machine.
\<close>

subsection \<open>Data model\<close>

type_synonym Scalar = real

datatype error =
    Runtime_error string   \<comment> \<open>\<^verbatim>\<open>throw std::runtime_error(msg)\<close>\<close>
  | Assertion_failed       \<comment> \<open>a failing \<^verbatim>\<open>assert\<close>\<close>
  | Division_by_zero       \<comment> \<open>a division whose divisor is zero as a real number\<close>

text \<open>The enum \<^verbatim>\<open>PotentialPair::energyShiftMode\<close>.\<close>

datatype energyShiftMode = no_shift | shift | xplor

text \<open>The two storage modes of \<^verbatim>\<open>NeighborList\<close> that the engine distinguishes.\<close>

datatype storageMode = half | full

text \<open>\<^verbatim>\<open>BoxDim\<close>: the low and high extent of the periodic box on each axis.\<close>

record BoxDim =
  xlo :: Scalar
  xhi :: Scalar
  ylo :: Scalar
  yhi :: Scalar
  zlo :: Scalar
  zhi :: Scalar

text \<open>
  \<^verbatim>\<open>ParticleDataArraysConst\<close>: the read-only particle arrays \<^verbatim>\<open>x, y, z, type, diameter,
  charge\<close> (here with the prefix \<open>arr_\<close>) and their common length \<^verbatim>\<open>nparticles\<close>.
\<close>

record ParticleDataArraysConst =
  nparticles :: nat
  arr_x :: "Scalar list"
  arr_y :: "Scalar list"
  arr_z :: "Scalar list"
  arr_type :: "nat list"
  arr_diameter :: "Scalar list"
  arr_charge :: "Scalar list"

text \<open>
  The evaluator is a template parameter of the class. An evaluator object is built from
  \<^verbatim>\<open>(rsq, rcutsq, param)\<close>, optionally receives \<^verbatim>\<open>setDiameter(a, b)\<close> and
  \<^verbatim>\<open>setCharge(a, b)\<close>, and is then asked for force and energy. The record
  \<open>evaluator_object\<close> holds exactly what the engine has handed to the object; the
  evaluator itself is a parameter: its two static capability flags, its name and its law
  \<^verbatim>\<open>evalForceAndEnergy\<close>, which maps the object and the \<^verbatim>\<open>energy_shift\<close> flag to the values
  it leaves in \<^verbatim>\<open>force_divr\<close> and \<^verbatim>\<open>pair_eng\<close> (both are passed in as zero).
\<close>

record 'p evaluator_object =
  ev_rsq :: Scalar
  ev_rcutsq :: Scalar
  ev_param :: 'p
  ev_diameter :: "(Scalar \<times> Scalar) option"
  ev_charge :: "(Scalar \<times> Scalar) option"

record 'p evaluator =
  needsDiameter :: bool
  needsCharge :: bool
  getName :: string
  evalForceAndEnergy :: "'p evaluator_object \<Rightarrow> bool \<Rightarrow> Scalar \<times> Scalar"

text \<open>
  The members of \<^verbatim>\<open>PotentialPair\<close> and those it inherits from \<^verbatim>\<open>ForceCompute\<close> (the
  per-particle output arrays). \<open>ntypes\<close> is \<^verbatim>\<open>m_pdata->getNTypes()\<close>; \<open>m_typpair_idx\<close> is
  the width the type-pair indexer was built with.
\<close>

record 'p PotentialPair =
  ntypes :: nat
  m_shift_mode :: energyShiftMode
  m_typpair_idx :: nat
  m_rcutsq :: "Scalar list"
  m_ronsq :: "Scalar list"
  m_params :: "'p list"
  m_prof_name :: string
  m_log_name :: string
  m_fx :: "Scalar list"
  m_fy :: "Scalar list"
  m_fz :: "Scalar list"
  m_pe :: "Scalar list"
  m_virial :: "Scalar list"

subsection \<open>The type-pair indexer\<close>

text \<open>
  Modelled from the spec: the class \<^verbatim>\<open>Index2DUpperTriangular\<close> (\<^verbatim>\<open>Index1D.h\<close>) is not
  among the sources. The specification asks for a canonical upper-triangular index over
  a flat array of \<open>N\<cdot>(N+1)/2\<close> slots in which \<open>(a, b)\<close> and \<open>(b, a)\<close> share a slot. The
  index below orders the pair, then packs the rows of the upper triangle one after the
  other: row \<open>r\<close> starts at \<open>r\<cdot>(2w - 1 - r)/2 + r\<close>.
\<close>

definition Index2DUpperTriangular :: "nat \<Rightarrow> nat \<Rightarrow> nat \<Rightarrow> nat" where
  "Index2DUpperTriangular w i j =
     (let lo = min i j; hi = max i j in lo * (2 * w - 1 - lo) div 2 + hi)"

text \<open>Modelled from the spec: the number of slots of the indexer, \<open>N\<cdot>(N+1)/2\<close>.\<close>

definition getNumElements :: "nat \<Rightarrow> nat" where
  "getNumElements w = w * (w + 1) div 2"

subsection \<open>Construction and configuration\<close>

text \<open>
  The constructor asserts a positive type count, sizes the three tables with the indexer
  and sets the two names. The initial content of a \<^verbatim>\<open>GPUArray\<close> and the allocation of
  the output arrays happen in code that is not among the sources: the tables start filled
  with zero and with the parameter value \<open>p0\<close>, the output arrays with \<open>N\<close> zeros.
\<close>

definition PotentialPair_ctor ::
  "'p evaluator \<Rightarrow> nat \<Rightarrow> nat \<Rightarrow> 'p \<Rightarrow> error + 'p PotentialPair" where
  "PotentialPair_ctor ev n_types N p0 =
     (if \<not> n_types > 0 then Inl Assertion_failed
      else Inr
        \<lparr> ntypes = n_types,
          m_shift_mode = no_shift,
          m_typpair_idx = n_types,
          m_rcutsq = replicate (getNumElements n_types) 0,
          m_ronsq = replicate (getNumElements n_types) 0,
          m_params = replicate (getNumElements n_types) p0,
          m_prof_name = ''Pair '' @ getName ev,
          m_log_name = ''pair_'' @ getName ev @ ''_energy'',
          m_fx = replicate N 0,
          m_fy = replicate N 0,
          m_fz = replicate N 0,
          m_pe = replicate N 0,
          m_virial = replicate N 0 \<rparr>)"

text \<open>
  The setters work on the object's state and return it together with the outcome: an
  error for a \<^verbatim>\<open>throw\<close>, or unit.
\<close>

definition setParams ::
  "nat \<Rightarrow> nat \<Rightarrow> 'p \<Rightarrow> 'p PotentialPair \<Rightarrow> (error + unit) \<times> 'p PotentialPair" where
  "setParams typ1 typ2 param s =
     (if typ1 \<ge> ntypes s \<or> typ2 \<ge> ntypes s
      then (Inl (Runtime_error ''Error setting parameters in PotentialPair''), s)
      else (Inr (),
            s\<lparr>m_params := (m_params s)[Index2DUpperTriangular (m_typpair_idx s) typ1 typ2 := param]\<rparr>))"

definition setRcut ::
  "nat \<Rightarrow> nat \<Rightarrow> Scalar \<Rightarrow> 'p PotentialPair \<Rightarrow> (error + unit) \<times> 'p PotentialPair" where
  "setRcut typ1 typ2 rcut s =
     (if typ1 \<ge> ntypes s \<or> typ2 \<ge> ntypes s
      then (Inl (Runtime_error ''Error setting parameters in PotentialPair''), s)
      else (Inr (),
            s\<lparr>m_rcutsq := (m_rcutsq s)[Index2DUpperTriangular (m_typpair_idx s) typ1 typ2 := rcut * rcut]\<rparr>))"

definition setRon ::
  "nat \<Rightarrow> nat \<Rightarrow> Scalar \<Rightarrow> 'p PotentialPair \<Rightarrow> (error + unit) \<times> 'p PotentialPair" where
  "setRon typ1 typ2 ron s =
     (if typ1 \<ge> ntypes s \<or> typ2 \<ge> ntypes s
      then (Inl (Runtime_error ''Error setting parameters in PotentialPair''), s)
      else (Inr (),
            s\<lparr>m_ronsq := (m_ronsq s)[Index2DUpperTriangular (m_typpair_idx s) typ1 typ2 := ron * ron]\<rparr>))"

definition setShiftMode :: "energyShiftMode \<Rightarrow> 'p PotentialPair \<Rightarrow> 'p PotentialPair" where
  "setShiftMode mode s = s\<lparr>m_shift_mode := mode\<rparr>"

text \<open>
  The state invariant the constructor establishes and the setters keep: the indexer has
  the width of the type count and every table has one slot per unordered type pair.
\<close>

definition tables_sized :: "'p PotentialPair \<Rightarrow> bool" where
  "tables_sized s \<longleftrightarrow>
     m_typpair_idx s = ntypes s \<and>
     length (m_rcutsq s) = getNumElements (ntypes s) \<and>
     length (m_ronsq s) = getNumElements (ntypes s) \<and>
     length (m_params s) = getNumElements (ntypes s)"

subsection \<open>The force computation\<close>

text \<open>
  The neighbour list is an external collaborator. \<open>getList nlist t\<close> is the list it holds
  after \<^verbatim>\<open>m_nlist->compute(t)\<close>: one sequence of neighbour indices per particle.
\<close>

record NeighborList =
  getStorageMode :: storageMode
  getList :: "nat \<Rightarrow> nat list list"

text \<open>
  The values read once per particle \<open>i\<close> at the head of the outer loop: \<^verbatim>\<open>xi, yi, zi,
  typei, di, qi\<close>. Diameter and charge are fetched only if the evaluator asks for them and
  are zero otherwise.
\<close>

record particle_regs =
  reg_x :: Scalar
  reg_y :: Scalar
  reg_z :: Scalar
  reg_type :: nat
  reg_d :: Scalar
  reg_q :: Scalar

definition load_particle :: "'p evaluator \<Rightarrow> ParticleDataArraysConst \<Rightarrow> nat \<Rightarrow> particle_regs" where
  "load_particle ev arrays i =
     \<lparr> reg_x = arr_x arrays ! i,
       reg_y = arr_y arrays ! i,
       reg_z = arr_z arrays ! i,
       reg_type = arr_type arrays ! i,
       reg_d = (if needsDiameter ev then arr_diameter arrays ! i else 0),
       reg_q = (if needsCharge ev then arr_charge arrays ! i else 0) \<rparr>"

text \<open>The running sums \<^verbatim>\<open>fxi, fyi, fzi, pei, viriali\<close> of the particle being visited.\<close>

record accum =
  fxi :: Scalar
  fyi :: Scalar
  fzi :: Scalar
  pei :: Scalar
  viriali :: Scalar

definition accum_zero :: accum where
  "accum_zero = \<lparr> fxi = 0, fyi = 0, fzi = 0, pei = 0, viriali = 0 \<rparr>"

text \<open>
  Periodic boundary conditions on one axis: \<^verbatim>\<open>if (dx >= box.xhi) dx -= Lx; else if
  (dx < box.xlo) dx += Lx;\<close> with \<^verbatim>\<open>Lx = box.xhi - box.xlo\<close>.
\<close>

definition periodic_image :: "Scalar \<Rightarrow> Scalar \<Rightarrow> Scalar \<Rightarrow> Scalar" where
  "periodic_image lo hi d =
     (let L = hi - lo in if d \<ge> hi then d - L else if d < lo then d + L else d)"

text \<open>The separation \<^verbatim>\<open>(dx, dy, dz)\<close> of the visited particle from its neighbour \<open>j\<close>.\<close>

definition pair_dr ::
  "ParticleDataArraysConst \<Rightarrow> BoxDim \<Rightarrow> particle_regs \<Rightarrow> nat \<Rightarrow> Scalar \<times> Scalar \<times> Scalar" where
  "pair_dr arrays box p j =
     (periodic_image (xlo box) (xhi box) (reg_x p - arr_x arrays ! j),
      periodic_image (ylo box) (yhi box) (reg_y p - arr_y arrays ! j),
      periodic_image (zlo box) (zhi box) (reg_z p - arr_z arrays ! j))"

definition rsq_of :: "Scalar \<times> Scalar \<times> Scalar \<Rightarrow> Scalar" where
  "rsq_of dr = (case dr of (dx, dy, dz) \<Rightarrow> dx * dx + dy * dy + dz * dz)"

text \<open>The flag \<^verbatim>\<open>energy_shift\<close> (lines 401 to 408).\<close>

definition energy_shift_flag :: "energyShiftMode \<Rightarrow> Scalar \<Rightarrow> Scalar \<Rightarrow> bool" where
  "energy_shift_flag mode ronsq rcutsq =
     (if mode = shift then True
      else if mode = xplor then (if ronsq > rcutsq then True else False)
      else False)"

text \<open>
  The evaluator object as the engine sets it up (lines 415 to 419). The charges \<open>qi\<close> and
  \<open>qj\<close> are in scope, as in the source, where \<^verbatim>\<open>setCharge\<close> is called with \<^verbatim>\<open>(di, dj)\<close>.
\<close>

definition make_evaluator ::
  "'p evaluator \<Rightarrow> Scalar \<Rightarrow> Scalar \<Rightarrow> 'p \<Rightarrow> Scalar \<Rightarrow> Scalar \<Rightarrow> Scalar \<Rightarrow> Scalar
     \<Rightarrow> 'p evaluator_object" where
  "make_evaluator ev rsq rcutsq param di dj qi qj =
     (let eval0 = \<lparr> ev_rsq = rsq, ev_rcutsq = rcutsq, ev_param = param,
                    ev_diameter = None, ev_charge = None \<rparr>;
          eval1 = (if needsDiameter ev then eval0\<lparr>ev_diameter := Some (di, dj)\<rparr> else eval0);
          eval2 = (if needsCharge ev then eval1\<lparr>ev_charge := Some (di, dj)\<rparr> else eval1)
      in eval2)"

text \<open>
  XPLOR smoothing (lines 428 to 445) of the evaluator's output \<open>(force_divr, pair_eng)\<close>.
  The one division of the loop is here. The divisor is the cube of the difference of the
  squared cutoff and the squared onset, taken over the reals; a divisor that is zero as a
  real number is an error of the model.
\<close>

definition xplor_denom :: "Scalar \<Rightarrow> Scalar \<Rightarrow> Scalar" where
  "xplor_denom rcutsq ronsq = (rcutsq - ronsq) * (rcutsq - ronsq) * (rcutsq - ronsq)"

definition xplor_smoothing ::
  "Scalar \<Rightarrow> Scalar \<Rightarrow> Scalar \<Rightarrow> Scalar \<times> Scalar \<Rightarrow> error + Scalar \<times> Scalar" where
  "xplor_smoothing rsq rcutsq ronsq fe =
     (let old_pair_eng = snd fe;
          old_force_divr = fst fe
      in if xplor_denom rcutsq ronsq = 0 then Inl Division_by_zero
         else
           let xplor_denom_inv = 1 / xplor_denom rcutsq ronsq;
               rsq_minus_r_cut_sq = rsq - rcutsq;
               s = rsq_minus_r_cut_sq * rsq_minus_r_cut_sq
                     * (rcutsq + 2 * rsq - 3 * ronsq) * xplor_denom_inv;
               ds_dr_divr = 12 * (rsq - ronsq) * rsq_minus_r_cut_sq * xplor_denom_inv;
               pair_eng = old_pair_eng * s;
               force_divr = s * old_force_divr - ds_dr_divr * old_pair_eng
           in Inr (force_divr, pair_eng))"

text \<open>
  Force and energy of a pair within the cutoff (lines 413 to 447): the evaluator's output,
  smoothed in xplor mode from the onset on.
\<close>

definition pair_force_energy ::
  "'p evaluator \<Rightarrow> energyShiftMode \<Rightarrow> bool \<Rightarrow> Scalar \<Rightarrow> Scalar \<Rightarrow> Scalar \<Rightarrow> 'p
     \<Rightarrow> Scalar \<Rightarrow> Scalar \<Rightarrow> Scalar \<Rightarrow> Scalar \<Rightarrow> error + Scalar \<times> Scalar" where
  "pair_force_energy ev mode energy_shift rsq rcutsq ronsq param di dj qi qj =
     (let eval = make_evaluator ev rsq rcutsq param di dj qi qj;
          fe = evalForceAndEnergy ev eval energy_shift
      in if mode = xplor
         then (if rsq \<ge> ronsq then xplor_smoothing rsq rcutsq ronsq fe else Inr fe)
         else Inr fe)"

text \<open>
  The reads of the three tables for a type pair (lines 394 to 399). The onset is read in
  xplor mode only and is zero otherwise.
\<close>

definition pair_param :: "'p PotentialPair \<Rightarrow> nat \<Rightarrow> nat \<Rightarrow> 'p" where
  "pair_param s typei typej = m_params s ! Index2DUpperTriangular (m_typpair_idx s) typei typej"

definition pair_rcutsq :: "'p PotentialPair \<Rightarrow> nat \<Rightarrow> nat \<Rightarrow> Scalar" where
  "pair_rcutsq s typei typej = m_rcutsq s ! Index2DUpperTriangular (m_typpair_idx s) typei typej"

definition pair_ronsq :: "'p PotentialPair \<Rightarrow> nat \<Rightarrow> nat \<Rightarrow> Scalar" where
  "pair_ronsq s typei typej =
     (if m_shift_mode s = xplor
      then m_ronsq s ! Index2DUpperTriangular (m_typpair_idx s) typei typej
      else 0)"

text \<open>
  The interaction \<open>(force_divr, pair_eng)\<close> of the visited particle with its neighbour
  \<open>j\<close>, as the loop body computes it once the pair is known to be within the cutoff.
\<close>

definition pair_interaction ::
  "'p evaluator \<Rightarrow> ParticleDataArraysConst \<Rightarrow> BoxDim \<Rightarrow> particle_regs \<Rightarrow> nat
     \<Rightarrow> 'p PotentialPair \<Rightarrow> error + Scalar \<times> Scalar" where
  "pair_interaction ev arrays box p j s =
     (let typej = arr_type arrays ! j;
          dj = (if needsDiameter ev then arr_diameter arrays ! j else 0);
          qj = (if needsCharge ev then arr_charge arrays ! j else 0);
          rsq = rsq_of (pair_dr arrays box p j);
          param = pair_param s (reg_type p) typej;
          rcutsq = pair_rcutsq s (reg_type p) typej;
          ronsq = pair_ronsq s (reg_type p) typej;
          energy_shift = energy_shift_flag (m_shift_mode s) ronsq rcutsq
      in pair_force_energy ev (m_shift_mode s) energy_shift rsq rcutsq ronsq param
           (reg_d p) dj (reg_q p) qj)"

text \<open>
  The body of the inner loop for the neighbour \<open>j\<close> of the visited particle. It returns
  the visited particle's running sums and the object, whose output arrays are written at
  \<open>j\<close> under the third law only.
\<close>

definition pair_step ::
  "'p evaluator \<Rightarrow> ParticleDataArraysConst \<Rightarrow> BoxDim \<Rightarrow> bool \<Rightarrow> particle_regs \<Rightarrow> nat
     \<Rightarrow> accum \<Rightarrow> 'p PotentialPair \<Rightarrow> (error + accum) \<times> 'p PotentialPair" where
  "pair_step ev arrays box third_law p j acc s =
     (if \<not> j < nparticles arrays then (Inl Assertion_failed, s)
      else if \<not> arr_type arrays ! j < ntypes s then (Inl Assertion_failed, s)
      else
        let dr = pair_dr arrays box p j;
            dx = fst dr; dy = fst (snd dr); dz = snd (snd dr);
            rsq = rsq_of dr;
            rcutsq = pair_rcutsq s (reg_type p) (arr_type arrays ! j)
        in if rsq < rcutsq
           then
             (case pair_interaction ev arrays box p j s of
                Inl e \<Rightarrow> (Inl e, s)
              | Inr (force_divr, pair_eng) \<Rightarrow>
                  let pair_virial = (1 / 6) * rsq * force_divr;
                      acc' = \<lparr> fxi = fxi acc + dx * force_divr,
                               fyi = fyi acc + dy * force_divr,
                               fzi = fzi acc + dz * force_divr,
                               pei = pei acc + pair_eng * (1 / 2),
                               viriali = viriali acc + pair_virial \<rparr>;
                      s' = (if third_law
                            then s\<lparr> m_fx := (m_fx s)[j := m_fx s ! j - dx * force_divr],
                                    m_fy := (m_fy s)[j := m_fy s ! j - dy * force_divr],
                                    m_fz := (m_fz s)[j := m_fz s ! j - dz * force_divr],
                                    m_pe := (m_pe s)[j := m_pe s ! j + pair_eng * (1 / 2)],
                                    m_virial := (m_virial s)[j := m_virial s ! j + pair_virial] \<rparr>
                            else s)
                  in (Inr acc', s'))
           else (Inr acc, s))"

text \<open>The inner loop over the neighbours of the visited particle.\<close>

fun neighbor_loop ::
  "'p evaluator \<Rightarrow> ParticleDataArraysConst \<Rightarrow> BoxDim \<Rightarrow> bool \<Rightarrow> particle_regs \<Rightarrow> nat list
     \<Rightarrow> accum \<Rightarrow> 'p PotentialPair \<Rightarrow> (error + accum) \<times> 'p PotentialPair" where
  "neighbor_loop ev arrays box third_law p [] acc s = (Inr acc, s)"
| "neighbor_loop ev arrays box third_law p (j # js) acc s =
     (case pair_step ev arrays box third_law p j acc s of
        (Inl e, s') \<Rightarrow> (Inl e, s')
      | (Inr acc', s') \<Rightarrow> neighbor_loop ev arrays box third_law p js acc' s')"

text \<open>The body of the outer loop for particle \<open>i\<close> (lines 325 to 480).\<close>

definition particle_step ::
  "'p evaluator \<Rightarrow> ParticleDataArraysConst \<Rightarrow> BoxDim \<Rightarrow> bool \<Rightarrow> nat list list \<Rightarrow> nat
     \<Rightarrow> 'p PotentialPair \<Rightarrow> (error + unit) \<times> 'p PotentialPair" where
  "particle_step ev arrays box third_law full_list i s =
     (if \<not> arr_type arrays ! i < ntypes s then (Inl Assertion_failed, s)
      else
        (case neighbor_loop ev arrays box third_law (load_particle ev arrays i)
                (full_list ! i) accum_zero s of
           (Inl e, s') \<Rightarrow> (Inl e, s')
         | (Inr acc, s') \<Rightarrow>
             (Inr (),
              s'\<lparr> m_fx := (m_fx s')[i := m_fx s' ! i + fxi acc],
                   m_fy := (m_fy s')[i := m_fy s' ! i + fyi acc],
                   m_fz := (m_fz s')[i := m_fz s' ! i + fzi acc],
                   m_pe := (m_pe s')[i := m_pe s' ! i + pei acc],
                   m_virial := (m_virial s')[i := m_virial s' ! i + viriali acc] \<rparr>)))"

text \<open>The outer loop, over the particle indices in increasing order.\<close>

fun particle_loop ::
  "'p evaluator \<Rightarrow> ParticleDataArraysConst \<Rightarrow> BoxDim \<Rightarrow> bool \<Rightarrow> nat list list \<Rightarrow> nat list
     \<Rightarrow> 'p PotentialPair \<Rightarrow> (error + unit) \<times> 'p PotentialPair" where
  "particle_loop ev arrays box third_law full_list [] s = (Inr (), s)"
| "particle_loop ev arrays box third_law full_list (i # is) s =
     (case particle_step ev arrays box third_law full_list i s of
        (Inl e, s') \<Rightarrow> (Inl e, s')
      | (Inr u, s') \<Rightarrow> particle_loop ev arrays box third_law full_list is s')"

text \<open>\<^verbatim>\<open>memset(a, 0, sizeof(Scalar) * n)\<close> on an array: its first \<open>n\<close> entries become zero.\<close>

definition memset_zero :: "nat \<Rightarrow> Scalar list \<Rightarrow> Scalar list" where
  "memset_zero n xs = replicate (min n (length xs)) 0 @ drop n xs"

definition computeForces ::
  "'p evaluator \<Rightarrow> NeighborList \<Rightarrow> ParticleDataArraysConst \<Rightarrow> BoxDim \<Rightarrow> nat
     \<Rightarrow> 'p PotentialPair \<Rightarrow> (error + unit) \<times> 'p PotentialPair" where
  "computeForces ev nlist arrays box timestep s =
     (let third_law = (getStorageMode nlist = half);
          full_list = getList nlist timestep;
          n = nparticles arrays;
          s0 = s\<lparr> m_fx := memset_zero n (m_fx s),
                  m_fy := memset_zero n (m_fy s),
                  m_fz := memset_zero n (m_fz s),
                  m_pe := memset_zero n (m_pe s),
                  m_virial := memset_zero n (m_virial s) \<rparr>
      in particle_loop ev arrays box third_law full_list [0..<n] s0)"

subsection \<open>Logging\<close>

definition getProvidedLogQuantities :: "'p PotentialPair \<Rightarrow> string list" where
  "getProvidedLogQuantities s = [m_log_name s]"

text \<open>
  Modelled from the spec: \<^verbatim>\<open>ForceCompute::calcEnergySum\<close> is not among the sources. It
  is the sum of all particles' potential-energy accumulators.
\<close>

definition calcEnergySum :: "'p PotentialPair \<Rightarrow> Scalar" where
  "calcEnergySum s = sum_list (m_pe s)"

text \<open>
  Modelled from the spec: \<^verbatim>\<open>ForceCompute::compute\<close> is not among the sources. It brings
  the accumulators up to date for the timestep, by running the force computation.
\<close>

definition compute ::
  "'p evaluator \<Rightarrow> NeighborList \<Rightarrow> ParticleDataArraysConst \<Rightarrow> BoxDim \<Rightarrow> nat
     \<Rightarrow> 'p PotentialPair \<Rightarrow> (error + unit) \<times> 'p PotentialPair" where
  "compute ev nlist arrays box timestep s = computeForces ev nlist arrays box timestep s"

definition getLogValue ::
  "'p evaluator \<Rightarrow> NeighborList \<Rightarrow> ParticleDataArraysConst \<Rightarrow> BoxDim \<Rightarrow> string \<Rightarrow> nat
     \<Rightarrow> 'p PotentialPair \<Rightarrow> (error + Scalar) \<times> 'p PotentialPair" where
  "getLogValue ev nlist arrays box quantity timestep s =
     (if quantity = m_log_name s
      then (case compute ev nlist arrays box timestep s of
              (Inl e, s') \<Rightarrow> (Inl e, s')
            | (Inr u, s') \<Rightarrow> (Inr (calcEnergySum s'), s'))
      else (Inl (Runtime_error ''Error getting log value''), s))"

subsection \<open>Example systems\<close>

text \<open>
  The trivial law of the specification's scenario: force over distance 2 and pair energy
  \<open>-1\<close> for every input, with no use of diameter or charge.
\<close>

definition trivial_law :: "'p evaluator" where
  "trivial_law = \<lparr> needsDiameter = False, needsCharge = False, getName = ''trivial'',
                   evalForceAndEnergy = (\<lambda>eval energy_shift. (2, - 1)) \<rparr>"

text \<open>A box with the same extent on every axis.\<close>

definition cube_box :: "Scalar \<Rightarrow> Scalar \<Rightarrow> BoxDim" where
  "cube_box lo hi = \<lparr> xlo = lo, xhi = hi, ylo = lo, yhi = hi, zlo = lo, zhi = hi \<rparr>"

text \<open>Particles of type 0 on the x axis, with diameter 1 and the given charges.\<close>

definition particles_on_x_axis :: "Scalar list \<Rightarrow> Scalar list \<Rightarrow> ParticleDataArraysConst" where
  "particles_on_x_axis xs qs =
     \<lparr> nparticles = length xs, arr_x = xs, arr_y = map (\<lambda>_. 0) xs, arr_z = map (\<lambda>_. 0) xs,
       arr_type = map (\<lambda>_. 0) xs, arr_diameter = map (\<lambda>_. 1) xs, arr_charge = qs \<rparr>"

text \<open>
  An engine for a single particle type and \<open>N\<close> particles, constructed and then configured
  with a shift mode, a cutoff and an onset.
\<close>

definition one_type_engine ::
  "'p evaluator \<Rightarrow> nat \<Rightarrow> 'p \<Rightarrow> energyShiftMode \<Rightarrow> Scalar \<Rightarrow> Scalar \<Rightarrow> 'p PotentialPair" where
  "one_type_engine ev N p0 mode rcut ron =
     setShiftMode mode
       (snd (setRon 0 0 ron (snd (setRcut 0 0 rcut (projr (PotentialPair_ctor ev 1 N p0))))))"

text \<open>
  A law that reads the charges: force over distance and energy are the product of the two
  charges it was given, and zero if it was given none.
\<close>

definition charge_law :: "unit evaluator" where
  "charge_law = \<lparr> needsDiameter = False, needsCharge = True, getName = ''charge'',
                  evalForceAndEnergy =
                    (\<lambda>eval energy_shift.
                       case ev_charge eval of
                         Some (qa, qb) \<Rightarrow> (qa * qb, qa * qb)
                       | None \<Rightarrow> (0, 0)) \<rparr>"

subsection \<open>Properties of inputs\<close>



text \<open>
  The three assertions of the loop hold for every particle and every neighbour: the types
  are below the type count and the neighbour indices below the particle count.
\<close>

definition asserts_hold ::
  "ParticleDataArraysConst \<Rightarrow> nat list list \<Rightarrow> 'p PotentialPair \<Rightarrow> bool" where
  "asserts_hold arrays full_list s \<longleftrightarrow>
     (\<forall>i < nparticles arrays.
        arr_type arrays ! i < ntypes s
      \<and> (\<forall>j \<in> set (full_list ! i). j < nparticles arrays))"


section \<open>Verification\<close>

subsection \<open>Unfolding rules for concrete systems\<close>

lemmas engine_defs =
  one_type_engine_def setShiftMode_def setRon_def setRcut_def setParams_def
  PotentialPair_ctor_def getNumElements_def Index2DUpperTriangular_def

lemmas system_defs = particles_on_x_axis_def cube_box_def trivial_law_def

lemmas loop_defs =
  computeForces_def memset_zero_def particle_step_def pair_step_def pair_interaction_def
  pair_param_def pair_rcutsq_def pair_ronsq_def xplor_smoothing_def xplor_denom_def
  load_particle_def pair_dr_def periodic_image_def rsq_of_def energy_shift_flag_def
  pair_force_energy_def make_evaluator_def accum_zero_def upt_rec Let_def eval_nat_numeral

subsection \<open>The type-pair tables\<close>

lemma Index2DUpperTriangular_sym:
  "Index2DUpperTriangular w a b = Index2DUpperTriangular w b a"
  by (simp add: Index2DUpperTriangular_def min.commute max.commute)

text \<open>The packed index of an ordered pair below the width lies inside the table.\<close>

lemma packed_row_bound:
  fixes lo hi w :: nat
  assumes "lo \<le> hi" "hi < w"
  shows "lo * (2 * w - 1 - lo) div 2 + hi < w * (w + 1) div 2"
proof -
  define m where "m = w - lo - 1"
  have m: "w = lo + m + 1" using assms by (simp add: m_def)
  have e1: "lo * (2 * w - 1 - lo) = lo * (lo + 2 * m + 1)"
    by (simp add: m)
  have "even (lo * (2 * w - 1 - lo))" by auto
  then have e2: "2 * (lo * (2 * w - 1 - lo) div 2) = lo * (2 * w - 1 - lo)" by simp
  have "even (w * (w + 1))" by simp
  then have e3: "2 * (w * (w + 1) div 2) = w * (w + 1)" by simp
  have "hi \<le> lo + m" using assms m by simp
  then have "lo * (lo + 2 * m + 1) + 2 * hi \<le> lo * (lo + 2 * m + 1) + 2 * (lo + m)" by simp
  also have "\<dots> < (lo + m + 1) * (lo + m + 2)" by (simp add: algebra_simps)
  finally have e4: "lo * (lo + 2 * m + 1) + 2 * hi < w * (w + 1)" by (simp add: m)
  show ?thesis using e1 e2 e3 e4 by linarith
qed

lemma Index2DUpperTriangular_in_range:
  assumes "a < w" "b < w"
  shows "Index2DUpperTriangular w a b < getNumElements w"
  unfolding Index2DUpperTriangular_def getNumElements_def Let_def
  using packed_row_bound[of "min a b" "max a b" w] assms by simp

lemma tables_sized_ctor:
  "PotentialPair_ctor ev n N p0 = Inr s \<Longrightarrow> tables_sized s"
  by (auto simp add: tables_sized_def PotentialPair_ctor_def split: if_splits)

text \<open>
  Claim C7. For valid type indices \<open>a\<close> and \<open>b\<close> of a sized table, each setter called with
  \<open>(a, b)\<close> has the same effect as with \<open>(b, a)\<close>, and the read for the pair \<open>(b, a)\<close>
  returns what was stored: the parameter, the squared cutoff \<open>rcut \<cdot> rcut\<close>, the squared
  onset \<open>ron \<cdot> ron\<close>.
\<close>

theorem setters_symmetric_in_type_pair:
  assumes "a < ntypes s" and "b < ntypes s" and "tables_sized s"
  shows "setParams a b v s = setParams b a v s
       \<and> pair_param (snd (setParams a b v s)) b a = v
       \<and> setRcut a b rcut s = setRcut b a rcut s
       \<and> pair_rcutsq (snd (setRcut a b rcut s)) b a = rcut * rcut
       \<and> setRon a b ron s = setRon b a ron s
       \<and> m_ronsq (snd (setRon a b ron s)) ! Index2DUpperTriangular (m_typpair_idx s) b a
           = ron * ron"
proof -
  have sym: "Index2DUpperTriangular (m_typpair_idx s) b a
               = Index2DUpperTriangular (m_typpair_idx s) a b"
    by (rule Index2DUpperTriangular_sym)
  have "Index2DUpperTriangular (ntypes s) a b < getNumElements (ntypes s)"
    using assms(1,2) by (rule Index2DUpperTriangular_in_range)
  then have rng: "Index2DUpperTriangular (m_typpair_idx s) a b < length (m_params s)"
       "Index2DUpperTriangular (m_typpair_idx s) a b < length (m_rcutsq s)"
       "Index2DUpperTriangular (m_typpair_idx s) a b < length (m_ronsq s)"
    using assms(3) by (simp_all add: tables_sized_def)
  show ?thesis
    using assms(1,2) rng
    by (simp add: setParams_def setRcut_def setRon_def pair_param_def pair_rcutsq_def sym)
qed

theorem setters_symmetric_in_type_pair_witness:
  "(0::nat) < ntypes (projr (PotentialPair_ctor trivial_law 3 2 (0::nat)))
   \<and> (2::nat) < ntypes (projr (PotentialPair_ctor trivial_law 3 2 (0::nat)))
   \<and> tables_sized (projr (PotentialPair_ctor trivial_law 3 2 (0::nat)))
   \<and> pair_param (snd (setParams 0 2 7 (projr (PotentialPair_ctor trivial_law 3 2 (0::nat))))) 2 0
        = 7
   \<and> pair_rcutsq (snd (setRcut 0 2 3 (projr (PotentialPair_ctor trivial_law 3 2 (0::nat))))) 2 0
        = 9"
proof -
  let ?s = "projr (PotentialPair_ctor trivial_law 3 2 (0::nat))"
  have c: "PotentialPair_ctor trivial_law 3 2 (0::nat) = Inr ?s"
    by (simp add: PotentialPair_ctor_def)
  have h: "0 < ntypes ?s" "2 < ntypes ?s"
    by (simp_all add: PotentialPair_ctor_def)
  have t: "tables_sized ?s"
    using c by (rule tables_sized_ctor)
  from setters_symmetric_in_type_pair [OF h t, of 7 3 0]
  have "pair_param (snd (setParams 0 2 7 ?s)) 2 0 = 7"
    and "pair_rcutsq (snd (setRcut 0 2 3 ?s)) 2 0 = 3 * 3"
    by blast+
  with h t show ?thesis
    by simp
qed

text \<open>
  Claim C8. A setter called with a type index at or above the type count returns the
  runtime error and the object exactly as it was; with two valid indices it returns no
  error.
\<close>

theorem setters_reject_invalid_type:
  "(ntypes s \<le> typ1 \<or> ntypes s \<le> typ2 \<longrightarrow>
      setParams typ1 typ2 param s
        = (Inl (Runtime_error ''Error setting parameters in PotentialPair''), s)
    \<and> setRcut typ1 typ2 rcut s
        = (Inl (Runtime_error ''Error setting parameters in PotentialPair''), s)
    \<and> setRon typ1 typ2 ron s
        = (Inl (Runtime_error ''Error setting parameters in PotentialPair''), s))
 \<and> (typ1 < ntypes s \<and> typ2 < ntypes s \<longrightarrow>
      fst (setParams typ1 typ2 param s) = Inr ()
    \<and> fst (setRcut typ1 typ2 rcut s) = Inr ()
    \<and> fst (setRon typ1 typ2 ron s) = Inr ())"
  by (auto simp add: setParams_def setRcut_def setRon_def)

theorem setters_reject_invalid_type_witness:
  "setRcut 5 0 2 (projr (PotentialPair_ctor trivial_law 3 2 ()))
     = (Inl (Runtime_error ''Error setting parameters in PotentialPair''),
        projr (PotentialPair_ctor trivial_law 3 2 ()))
   \<and> fst (setRcut 1 2 2 (projr (PotentialPair_ctor trivial_law 3 2 ()))) = Inr ()"
  using setters_reject_invalid_type
          [of "projr (PotentialPair_ctor trivial_law 3 2 ())" 5 0 "()" 2 0]
        setters_reject_invalid_type
          [of "projr (PotentialPair_ctor trivial_law 3 2 ())" 1 2 "()" 2 0]
  by (simp add: PotentialPair_ctor_def)

subsection \<open>One pair\<close>

lemma xplor_denom_pos: "ronsq < rcutsq \<Longrightarrow> 0 < xplor_denom rcutsq ronsq"
  by (simp add: xplor_denom_def)

lemma xplor_smoothing_value:
  assumes "ronsq < rcutsq"
  shows "xplor_smoothing rsq rcutsq ronsq (F, E) =
           Inr ((rsq - rcutsq)\<^sup>2 * (rcutsq + 2 * rsq - 3 * ronsq) / (rcutsq - ronsq) ^ 3 * F
                  - 12 * (rsq - ronsq) * (rsq - rcutsq) / (rcutsq - ronsq) ^ 3 * E,
                (rsq - rcutsq)\<^sup>2 * (rcutsq + 2 * rsq - 3 * ronsq) / (rcutsq - ronsq) ^ 3 * E)"
proof -
  have d: "xplor_denom rcutsq ronsq = (rcutsq - ronsq) ^ 3"
    by (simp add: xplor_denom_def power3_eq_cube)
  have nz: "(rcutsq - ronsq) ^ 3 \<noteq> 0"
    using assms by simp
  show ?thesis
    using nz by (simp add: xplor_smoothing_def d Let_def power2_eq_square)
qed

lemma pair_force_energy_defined:
  assumes "rsq < rcutsq"
  shows "\<exists>fe. pair_force_energy ev mode sh rsq rcutsq ronsq param di dj qi qj = Inr fe"
proof (cases "mode = xplor \<and> ronsq \<le> rsq")
  case True
  then have "ronsq < rcutsq" using assms by simp
  then have "xplor_denom rcutsq ronsq \<noteq> 0"
    using xplor_denom_pos [of ronsq rcutsq] by simp
  then show ?thesis
    using True by (simp add: pair_force_energy_def xplor_smoothing_def Let_def)
next
  case False
  then show ?thesis
    by (auto simp add: pair_force_energy_def Let_def)
qed

lemma pair_interaction_defined:
  assumes "rsq_of (pair_dr arrays box p j) < pair_rcutsq s (reg_type p) (arr_type arrays ! j)"
  shows "\<exists>fe. pair_interaction ev arrays box p j s = Inr fe"
  unfolding pair_interaction_def Let_def
  using assms by (rule pair_force_energy_defined)

lemma pair_step_beyond_cutoff:
  assumes "j < nparticles arrays" and "arr_type arrays ! j < ntypes s"
    and "pair_rcutsq s (reg_type p) (arr_type arrays ! j) \<le> rsq_of (pair_dr arrays box p j)"
  shows "pair_step ev arrays box third_law p j acc s = (Inr acc, s)"
  using assms by (simp add: pair_step_def Let_def)

lemma pair_step_within_cutoff:
  assumes "j < nparticles arrays" and "arr_type arrays ! j < ntypes s"
    and "rsq_of (pair_dr arrays box p j) < pair_rcutsq s (reg_type p) (arr_type arrays ! j)"
    and "pair_interaction ev arrays box p j s = Inr (force_divr, pair_eng)"
  shows "pair_step ev arrays box third_law p j acc s =
     (Inr \<lparr> fxi = fxi acc + fst (pair_dr arrays box p j) * force_divr,
            fyi = fyi acc + fst (snd (pair_dr arrays box p j)) * force_divr,
            fzi = fzi acc + snd (snd (pair_dr arrays box p j)) * force_divr,
            pei = pei acc + pair_eng * (1 / 2),
            viriali = viriali acc + (1 / 6) * rsq_of (pair_dr arrays box p j) * force_divr \<rparr>,
      if third_law
      then s\<lparr> m_fx := (m_fx s)[j := m_fx s ! j - fst (pair_dr arrays box p j) * force_divr],
              m_fy := (m_fy s)[j := m_fy s ! j - fst (snd (pair_dr arrays box p j)) * force_divr],
              m_fz := (m_fz s)[j := m_fz s ! j - snd (snd (pair_dr arrays box p j)) * force_divr],
              m_pe := (m_pe s)[j := m_pe s ! j + pair_eng * (1 / 2)],
              m_virial := (m_virial s)[j := m_virial s ! j
                             + (1 / 6) * rsq_of (pair_dr arrays box p j) * force_divr] \<rparr>
      else s)"
  using assms by (simp add: pair_step_def Let_def)

subsection \<open>Claims about one pair\<close>

text \<open>
  Claim C1. Let the engine be in xplor mode and let \<open>rcutsq\<close> and \<open>ronsq\<close> be the entries of
  the cutoff and onset tables for the type pair of the visited particle and its neighbour,
  with the shift flag not set (\<open>ronsq\<close> does not exceed \<open>rcutsq\<close>); let \<open>rsq\<close> be the squared
  separation of the pair and \<open>(F, E)\<close> the output of the evaluator, set up for the pair,
  without energy shift. From the onset up to the cutoff the interaction of the pair is
  \<open>(s \<cdot> F - ds_dr_over_r \<cdot> E, s \<cdot> E)\<close> with
  \<open>s = (rsq - rcutsq)\<^sup>2 \<cdot> (rcutsq + 2 \<cdot> rsq - 3 \<cdot> ronsq) / (rcutsq - ronsq)\<^sup>3\<close> and
  \<open>ds_dr_over_r = 12 \<cdot> (rsq - ronsq) \<cdot> (rsq - rcutsq) / (rcutsq - ronsq)\<^sup>3\<close>, and these are the
  values the loop body adds to the running sums; below the onset the interaction is
  \<open>(F, E)\<close> unchanged; at the onset it equals \<open>(F, E)\<close>; the smoothing taken at the cutoff
  gives zero, and at the cutoff the pair contributes nothing. The force computation is
  run on two particles with cutoff 2 and onset 1 set through the setters and the trivial
  law: at distance 3/2 (inside the window) it leaves the smoothed values, at distance 1/2
  and at distance 1 (the onset) the raw ones, at distance 2 (the cutoff) zeros.
\<close>

theorem xplor_window_smoothing:
  assumes "m_shift_mode s = xplor"
    and "j < nparticles arrays" and "arr_type arrays ! j < ntypes s"
    and "m_rcutsq s ! Index2DUpperTriangular (m_typpair_idx s) (reg_type p) (arr_type arrays ! j)
           = rcutsq"
    and "m_ronsq s ! Index2DUpperTriangular (m_typpair_idx s) (reg_type p) (arr_type arrays ! j)
           = ronsq"
    and "\<not> ronsq > rcutsq"
    and "rsq_of (pair_dr arrays box p j) = rsq"
    and "evalForceAndEnergy ev
           (make_evaluator ev rsq rcutsq
              (m_params s ! Index2DUpperTriangular (m_typpair_idx s) (reg_type p) (arr_type arrays ! j))
              (reg_d p) (if needsDiameter ev then arr_diameter arrays ! j else 0)
              (reg_q p) (if needsCharge ev then arr_charge arrays ! j else 0))
           False = (F, E)"
  shows "(ronsq \<le> rsq \<and> rsq < rcutsq \<longrightarrow>
            pair_interaction ev arrays box p j s
              = Inr ((rsq - rcutsq)\<^sup>2 * (rcutsq + 2 * rsq - 3 * ronsq) / (rcutsq - ronsq) ^ 3 * F
                       - 12 * (rsq - ronsq) * (rsq - rcutsq) / (rcutsq - ronsq) ^ 3 * E,
                     (rsq - rcutsq)\<^sup>2 * (rcutsq + 2 * rsq - 3 * ronsq) / (rcutsq - ronsq) ^ 3 * E)
          \<and> (\<exists>acc' s'. pair_step ev arrays box third_law p j acc s = (Inr acc', s')
                \<and> pei acc' = pei acc
                     + 1 / 2 * ((rsq - rcutsq)\<^sup>2 * (rcutsq + 2 * rsq - 3 * ronsq)
                                  / (rcutsq - ronsq) ^ 3 * E)
                \<and> fxi acc' = fxi acc
                     + fst (pair_dr arrays box p j)
                       * ((rsq - rcutsq)\<^sup>2 * (rcutsq + 2 * rsq - 3 * ronsq) / (rcutsq - ronsq) ^ 3 * F
                            - 12 * (rsq - ronsq) * (rsq - rcutsq) / (rcutsq - ronsq) ^ 3 * E)))
       \<and> (rsq < ronsq \<longrightarrow>
            pair_interaction ev arrays box p j s = Inr (F, E)
          \<and> (\<exists>acc' s'. pair_step ev arrays box third_law p j acc s = (Inr acc', s')
                \<and> pei acc' = pei acc + 1 / 2 * E
                \<and> fxi acc' = fxi acc + fst (pair_dr arrays box p j) * F))
       \<and> (rsq = ronsq \<and> ronsq < rcutsq \<longrightarrow>
            pair_interaction ev arrays box p j s = Inr (F, E))
       \<and> (ronsq < rcutsq \<longrightarrow> xplor_smoothing rcutsq rcutsq ronsq (F, E) = Inr (0, 0))
       \<and> (rsq = rcutsq \<longrightarrow> pair_step ev arrays box third_law p j acc s = (Inr acc, s))
       \<and> computeForces trivial_law \<lparr>getStorageMode = half, getList = (\<lambda>t. [[1], []])\<rparr>
            (particles_on_x_axis [0, 3 / 2] [0, 0]) (cube_box (- 5) 5) timestep
            (one_type_engine trivial_law 2 () xplor 2 1)
          = (Inr (), (one_type_engine trivial_law 2 () xplor 2 1)
               \<lparr>m_fx := [(0 - 3 / 2) * ((9 / 4 - 4)\<^sup>2 * (4 + 2 * (9 / 4) - 3 * 1) / (4 - 1) ^ 3 * 2
                                          - 12 * (9 / 4 - 1) * (9 / 4 - 4) / (4 - 1) ^ 3 * (- 1)),
                         - ((0 - 3 / 2) * ((9 / 4 - 4)\<^sup>2 * (4 + 2 * (9 / 4) - 3 * 1) / (4 - 1) ^ 3 * 2
                                          - 12 * (9 / 4 - 1) * (9 / 4 - 4) / (4 - 1) ^ 3 * (- 1)))],
                 m_fy := [0, 0], m_fz := [0, 0],
                 m_pe := [1 / 2 * ((9 / 4 - 4)\<^sup>2 * (4 + 2 * (9 / 4) - 3 * 1) / (4 - 1) ^ 3 * (- 1)),
                          1 / 2 * ((9 / 4 - 4)\<^sup>2 * (4 + 2 * (9 / 4) - 3 * 1) / (4 - 1) ^ 3 * (- 1))],
                 m_virial := [119 / 1152, 119 / 1152]\<rparr>)
       \<and> computeForces trivial_law \<lparr>getStorageMode = half, getList = (\<lambda>t. [[1], []])\<rparr>
            (particles_on_x_axis [0, 1 / 2] [0, 0]) (cube_box (- 5) 5) timestep
            (one_type_engine trivial_law 2 () xplor 2 1)
          = (Inr (), (one_type_engine trivial_law 2 () xplor 2 1)
               \<lparr>m_fx := [(0 - 1 / 2) * 2, - ((0 - 1 / 2) * 2)], m_fy := [0, 0], m_fz := [0, 0],
                 m_pe := [1 / 2 * (- 1), 1 / 2 * (- 1)], m_virial := [1 / 12, 1 / 12]\<rparr>)
       \<and> computeForces trivial_law \<lparr>getStorageMode = half, getList = (\<lambda>t. [[1], []])\<rparr>
            (particles_on_x_axis [0, 1] [0, 0]) (cube_box (- 5) 5) timestep
            (one_type_engine trivial_law 2 () xplor 2 1)
          = (Inr (), (one_type_engine trivial_law 2 () xplor 2 1)
               \<lparr>m_fx := [(0 - 1) * 2, - ((0 - 1) * 2)], m_fy := [0, 0], m_fz := [0, 0],
                 m_pe := [1 / 2 * (- 1), 1 / 2 * (- 1)], m_virial := [1 / 3, 1 / 3]\<rparr>)
       \<and> computeForces trivial_law \<lparr>getStorageMode = half, getList = (\<lambda>t. [[1], []])\<rparr>
            (particles_on_x_axis [0, 2] [0, 0]) (cube_box (- 5) 5) timestep
            (one_type_engine trivial_law 2 () xplor 2 1)
          = (Inr (), (one_type_engine trivial_law 2 () xplor 2 1)
               \<lparr>m_fx := [0, 0], m_fy := [0, 0], m_fz := [0, 0],
                 m_pe := [0, 0], m_virial := [0, 0]\<rparr>)"
proof -
  let ?tj = "arr_type arrays ! j"
  let ?dj = "if needsDiameter ev then arr_diameter arrays ! j else 0"
  let ?qj = "if needsCharge ev then arr_charge arrays ! j else 0"
  let ?S = "(rsq - rcutsq)\<^sup>2 * (rcutsq + 2 * rsq - 3 * ronsq) / (rcutsq - ronsq) ^ 3"
  let ?D = "12 * (rsq - ronsq) * (rsq - rcutsq) / (rcutsq - ronsq) ^ 3"
  have rc: "pair_rcutsq s (reg_type p) ?tj = rcutsq"
    using assms(4) by (simp add: pair_rcutsq_def)
  have ro: "pair_ronsq s (reg_type p) ?tj = ronsq"
    using assms(1,5) by (simp add: pair_ronsq_def)
  have flag: "energy_shift_flag xplor ronsq rcutsq = False"
    using assms(6) by (simp add: energy_shift_flag_def)
  have pi: "pair_interaction ev arrays box p j s
              = pair_force_energy ev xplor False rsq rcutsq ronsq
                  (m_params s ! Index2DUpperTriangular (m_typpair_idx s) (reg_type p) ?tj)
                  (reg_d p) ?dj (reg_q p) ?qj"
    unfolding pair_interaction_def Let_def rc ro assms(1) assms(7) flag
    by (simp add: pair_param_def)
  have window: "pair_interaction ev arrays box p j s = xplor_smoothing rsq rcutsq ronsq (F, E)"
    if "ronsq \<le> rsq"
    using that assms(8) by (simp add: pi pair_force_energy_def Let_def)
  have below: "pair_interaction ev arrays box p j s = Inr (F, E)" if "rsq < ronsq"
    using that assms(8) by (simp add: pi pair_force_energy_def Let_def)
  have inwin: "pair_interaction ev arrays box p j s = Inr (?S * F - ?D * E, ?S * E)"
    if "ronsq \<le> rsq" and "rsq < rcutsq"
  proof -
    from that have "ronsq < rcutsq" by simp
    then show ?thesis
      using window [OF that(1)] xplor_smoothing_value [of ronsq rcutsq rsq F E] by simp
  qed
  have onset: "xplor_smoothing ronsq rcutsq ronsq (F, E) = Inr (F, E)" if "ronsq < rcutsq"
  proof -
    have nz: "rcutsq - ronsq \<noteq> 0" using that by simp
    have "(ronsq - rcutsq)\<^sup>2 * (rcutsq + 2 * ronsq - 3 * ronsq) = (rcutsq - ronsq) ^ 3"
      by (simp add: power2_eq_square power3_eq_cube algebra_simps)
    then have "(ronsq - rcutsq)\<^sup>2 * (rcutsq + 2 * ronsq - 3 * ronsq) / (rcutsq - ronsq) ^ 3 = 1"
      using nz by simp
    then show ?thesis
      using xplor_smoothing_value [OF that, of ronsq F E] by simp
  qed
  have lt: "rsq_of (pair_dr arrays box p j) < pair_rcutsq s (reg_type p) ?tj" if "rsq < rcutsq"
    using that by (simp add: rc assms(7))
  show ?thesis
  proof (intro conjI impI)
    assume a: "ronsq \<le> rsq \<and> rsq < rcutsq"
    then show i1: "pair_interaction ev arrays box p j s = Inr (?S * F - ?D * E, ?S * E)"
      using inwin by simp
    from a have l: "rsq_of (pair_dr arrays box p j) < pair_rcutsq s (reg_type p) ?tj"
      using lt by simp
    show "\<exists>acc' s'. pair_step ev arrays box third_law p j acc s = (Inr acc', s')
                \<and> pei acc' = pei acc + 1 / 2 * (?S * E)
                \<and> fxi acc' = fxi acc + fst (pair_dr arrays box p j) * (?S * F - ?D * E)"
      by (subst pair_step_within_cutoff [OF assms(2,3) l i1]) simp
  next
    assume b: "rsq < ronsq"
    then show i2: "pair_interaction ev arrays box p j s = Inr (F, E)"
      by (rule below)
    from b assms(6) have "rsq < rcutsq" by simp
    then have l: "rsq_of (pair_dr arrays box p j) < pair_rcutsq s (reg_type p) ?tj"
      by (rule lt)
    show "\<exists>acc' s'. pair_step ev arrays box third_law p j acc s = (Inr acc', s')
                \<and> pei acc' = pei acc + 1 / 2 * E
                \<and> fxi acc' = fxi acc + fst (pair_dr arrays box p j) * F"
      by (subst pair_step_within_cutoff [OF assms(2,3) l i2]) simp
  next
    assume "rsq = ronsq \<and> ronsq < rcutsq"
    then show "pair_interaction ev arrays box p j s = Inr (F, E)"
      using window [of] onset by simp
  next
    assume "ronsq < rcutsq"
    then show "xplor_smoothing rcutsq rcutsq ronsq (F, E) = Inr (0, 0)"
      using xplor_smoothing_value [of ronsq rcutsq rcutsq F E] by simp
  next
    assume "rsq = rcutsq"
    then have "pair_rcutsq s (reg_type p) ?tj \<le> rsq_of (pair_dr arrays box p j)"
      by (simp add: rc assms(7))
    with assms(2,3) show "pair_step ev arrays box third_law p j acc s = (Inr acc, s)"
      by (rule pair_step_beyond_cutoff)
  qed (simp_all add: engine_defs system_defs loop_defs)
qed


theorem xplor_window_smoothing_witness:
  "(m_shift_mode (one_type_engine trivial_law 2 () xplor 2 1) = xplor
    \<and> (1::nat) < nparticles (particles_on_x_axis [0, 3 / 2] [0, 0])
    \<and> arr_type (particles_on_x_axis [0, 3 / 2] [0, 0]) ! 1
         < ntypes (one_type_engine trivial_law 2 () xplor 2 1)
    \<and> m_rcutsq (one_type_engine trivial_law 2 () xplor 2 1) ! 0 = 4
    \<and> m_ronsq (one_type_engine trivial_law 2 () xplor 2 1) ! 0 = 1
    \<and> \<not> (1::real) > 4
    \<and> rsq_of (pair_dr (particles_on_x_axis [0, 3 / 2] [0, 0]) (cube_box (- 5) 5)
                (load_particle (trivial_law :: unit evaluator)
                   (particles_on_x_axis [0, 3 / 2] [0, 0]) 0) 1) = 9 / 4)
   \<and> pair_interaction trivial_law (particles_on_x_axis [0, 3 / 2] [0, 0]) (cube_box (- 5) 5)
        (load_particle (trivial_law :: unit evaluator) (particles_on_x_axis [0, 3 / 2] [0, 0]) 0) 1
        (one_type_engine trivial_law 2 () xplor 2 1)
      = Inr (119 / 432, - (539 / 864))"
proof -
  let ?A = "particles_on_x_axis [0, 3 / 2] [0, 0]"
  let ?B = "cube_box (- 5) 5"
  let ?S = "one_type_engine (trivial_law :: unit evaluator) 2 () xplor 2 1"
  let ?P = "load_particle (trivial_law :: unit evaluator) ?A 0"
  have ix: "Index2DUpperTriangular (m_typpair_idx ?S) (reg_type ?P) (arr_type ?A ! 1) = 0"
    by (simp add: engine_defs system_defs load_particle_def)
  have h1: "m_shift_mode ?S = xplor"
    by (simp add: engine_defs)
  have h2: "(1::nat) < nparticles ?A"
    by (simp add: system_defs)
  have h3: "arr_type ?A ! 1 < ntypes ?S"
    by (simp add: system_defs engine_defs)
  have c: "m_rcutsq ?S ! 0 = 4" and r: "m_ronsq ?S ! 0 = 1"
    by (simp_all add: engine_defs)
  have h4: "m_rcutsq ?S ! Index2DUpperTriangular (m_typpair_idx ?S) (reg_type ?P) (arr_type ?A ! 1) = 4"
    unfolding ix by (rule c)
  have h5: "m_ronsq ?S ! Index2DUpperTriangular (m_typpair_idx ?S) (reg_type ?P) (arr_type ?A ! 1) = 1"
    unfolding ix by (rule r)
  have h6: "\<not> (1::real) > 4" by simp
  have h7: "rsq_of (pair_dr ?A ?B ?P 1) = 9 / 4"
    by (simp add: system_defs loop_defs)
  have h8: "evalForceAndEnergy trivial_law
           (make_evaluator trivial_law (9 / 4) 4
              (m_params ?S ! Index2DUpperTriangular (m_typpair_idx ?S) (reg_type ?P) (arr_type ?A ! 1))
              (reg_d ?P) (if needsDiameter (trivial_law :: unit evaluator) then arr_diameter ?A ! 1 else 0)
              (reg_q ?P) (if needsCharge (trivial_law :: unit evaluator) then arr_charge ?A ! 1 else 0))
           False = (2, - 1)"
    by (simp add: trivial_law_def)
  have w: "(1::real) \<le> 9 / 4 \<and> (9 / 4 :: real) < 4" by simp
  from xplor_window_smoothing [OF h1 h2 h3 h4 h5 h6 h7 h8] w
  have "pair_interaction trivial_law ?A ?B ?P 1 ?S
          = Inr ((9 / 4 - 4)\<^sup>2 * (4 + 2 * (9 / 4) - 3 * 1) / (4 - 1) ^ 3 * 2
                   - 12 * (9 / 4 - 1) * (9 / 4 - 4) / (4 - 1) ^ 3 * (- 1),
                 (9 / 4 - 4)\<^sup>2 * (4 + 2 * (9 / 4) - 3 * 1) / (4 - 1) ^ 3 * (- 1))"
    by blast
  then have "pair_interaction trivial_law ?A ?B ?P 1 ?S = Inr (119 / 432, - (539 / 864))"
    by (simp add: power2_eq_square power3_eq_cube)
  with h1 h2 h3 c r h6 h7 show ?thesis by blast
qed

text \<open>
  Claim C5. A pair whose squared separation is at least the squared cutoff of its type
  pair, equality included, contributes nothing: the running sums of the visited particle
  and the whole object, with the neighbour's accumulators, are returned as they were.
\<close>

theorem pair_beyond_cutoff_contributes_nothing:
  assumes "j < nparticles arrays" and "arr_type arrays ! j < ntypes s"
    and "pair_rcutsq s (reg_type p) (arr_type arrays ! j) \<le> rsq_of (pair_dr arrays box p j)"
  shows "pair_step ev arrays box third_law p j acc s = (Inr acc, s)"
  using assms by (rule pair_step_beyond_cutoff)

theorem pair_beyond_cutoff_contributes_nothing_witness:
  "(1::nat) < nparticles (particles_on_x_axis [0, 2] [0, 0])
   \<and> arr_type (particles_on_x_axis [0, 2] [0, 0]) ! 1 < ntypes (one_type_engine trivial_law 2 () no_shift 2 0)
   \<and> pair_rcutsq (one_type_engine trivial_law 2 () no_shift 2 0) 0 0 = 4
   \<and> rsq_of (pair_dr (particles_on_x_axis [0, 2] [0, 0]) (cube_box (- 5) 5)
               (load_particle (trivial_law :: unit evaluator) (particles_on_x_axis [0, 2] [0, 0]) 0) 1) = 4
   \<and> pair_step trivial_law (particles_on_x_axis [0, 2] [0, 0]) (cube_box (- 5) 5) True
        (load_particle (trivial_law :: unit evaluator) (particles_on_x_axis [0, 2] [0, 0]) 0) 1 accum_zero
        (one_type_engine trivial_law 2 () no_shift 2 0)
      = (Inr accum_zero, one_type_engine trivial_law 2 () no_shift 2 0)"
proof -
  let ?arrays = "particles_on_x_axis [0, 2] [0, 0]"
  let ?s = "one_type_engine trivial_law 2 () no_shift 2 0"
  let ?p = "load_particle (trivial_law :: unit evaluator) ?arrays 0"
  have h1: "(1::nat) < nparticles ?arrays"
    by (simp add: system_defs)
  have h2: "arr_type ?arrays ! 1 < ntypes ?s"
    by (simp add: system_defs engine_defs)
  have t: "reg_type ?p = 0" "arr_type ?arrays ! 1 = 0"
    by (simp_all add: system_defs load_particle_def)
  have c: "pair_rcutsq ?s 0 0 = 4"
    by (simp add: engine_defs pair_rcutsq_def)
  have r: "rsq_of (pair_dr ?arrays (cube_box (- 5) 5) ?p 1) = 4"
    by (simp add: system_defs loop_defs)
  have h3: "pair_rcutsq ?s (reg_type ?p) (arr_type ?arrays ! 1)
              \<le> rsq_of (pair_dr ?arrays (cube_box (- 5) 5) ?p 1)"
    by (simp only: t c r)
  from pair_beyond_cutoff_contributes_nothing [OF h1 h2 h3, of trivial_law True accum_zero]
  show ?thesis using h1 h2 c r by simp
qed




subsection \<open>The minimum image\<close>

lemma periodic_image_cases:
  "(hi \<le> d \<longrightarrow> periodic_image lo hi d = d - (hi - lo))
   \<and> (d < hi \<and> d < lo \<longrightarrow> periodic_image lo hi d = d + (hi - lo))
   \<and> (lo \<le> d \<and> d < hi \<longrightarrow> periodic_image lo hi d = d)"
  by (simp add: periodic_image_def Let_def)

lemma periodic_image_centred_range:
  assumes "lo = - hi" and "lo - (hi - lo) \<le> d" and "d < hi + (hi - lo)"
  shows "lo \<le> periodic_image lo hi d \<and> periodic_image lo hi d < hi"
  using assms by (auto simp add: periodic_image_def Let_def)

lemma pair_step_fails_iff:
  "(\<exists>e s'. pair_step ev arrays box third_law p j acc s = (Inl e, s'))
     \<longleftrightarrow> \<not> (j < nparticles arrays \<and> arr_type arrays ! j < ntypes s)"
proof (cases "j < nparticles arrays \<and> arr_type arrays ! j < ntypes s")
  case False
  then show ?thesis by (auto simp add: pair_step_def)
next
  case True
  show ?thesis
  proof (cases "rsq_of (pair_dr arrays box p j) < pair_rcutsq s (reg_type p) (arr_type arrays ! j)")
    case c: True
    then obtain fe where "pair_interaction ev arrays box p j s = Inr fe"
      using pair_interaction_defined by blast
    then show ?thesis
      using True c by (simp add: pair_step_def Let_def split: prod.splits)
  next
    case False
    then show ?thesis
      using True by (simp add: pair_step_def Let_def)
  qed
qed










text \<open>
  Claim C4, as amended. The separation of a pair is the raw offset
  \<open>position(i) - position(j)\<close> on each axis, corrected on each axis on its own: an offset
  at or above the box's high extent has the box length subtracted, otherwise an offset
  below the low extent has it added, otherwise it is kept. If the box is centred on the
  axis and the raw offset is within one box length of the box, as it is when both
  particles lie in the box, the corrected offset is at most half the box length in
  magnitude. The cutoff plays no part, and nothing is checked at run time: a pair step
  fails exactly when an index assertion fails, whatever the box.
\<close>

theorem minimum_image_rule:
  "pair_dr arrays box (load_particle ev arrays i) j
     = (periodic_image (xlo box) (xhi box) (arr_x arrays ! i - arr_x arrays ! j),
        periodic_image (ylo box) (yhi box) (arr_y arrays ! i - arr_y arrays ! j),
        periodic_image (zlo box) (zhi box) (arr_z arrays ! i - arr_z arrays ! j))
   \<and> (hi \<le> d \<longrightarrow> periodic_image lo hi d = d - (hi - lo))
   \<and> (d < hi \<and> d < lo \<longrightarrow> periodic_image lo hi d = d + (hi - lo))
   \<and> (lo \<le> d \<and> d < hi \<longrightarrow> periodic_image lo hi d = d)
   \<and> (lo = - hi \<and> lo - (hi - lo) \<le> d \<and> d < hi + (hi - lo) \<longrightarrow>
        \<bar>periodic_image lo hi d\<bar> \<le> (hi - lo) / 2)
   \<and> (lo = - hi \<and> lo \<le> a \<and> a < hi \<and> lo \<le> b \<and> b < hi \<longrightarrow>
        \<bar>periodic_image lo hi (a - b)\<bar> \<le> (hi - lo) / 2)
   \<and> ((\<exists>e s'. pair_step ev arrays box third_law p j acc s = (Inl e, s'))
        \<longleftrightarrow> \<not> (j < nparticles arrays \<and> arr_type arrays ! j < ntypes s))"
proof (intro conjI impI)
  show "pair_dr arrays box (load_particle ev arrays i) j
     = (periodic_image (xlo box) (xhi box) (arr_x arrays ! i - arr_x arrays ! j),
        periodic_image (ylo box) (yhi box) (arr_y arrays ! i - arr_y arrays ! j),
        periodic_image (zlo box) (zhi box) (arr_z arrays ! i - arr_z arrays ! j))"
    by (simp add: pair_dr_def load_particle_def)
next
  assume "hi \<le> d"
  then show "periodic_image lo hi d = d - (hi - lo)"
    using periodic_image_cases by blast
next
  assume "d < hi \<and> d < lo"
  then show "periodic_image lo hi d = d + (hi - lo)"
    using periodic_image_cases by blast
next
  assume "lo \<le> d \<and> d < hi"
  then show "periodic_image lo hi d = d"
    using periodic_image_cases by blast
next
  assume "lo = - hi \<and> lo - (hi - lo) \<le> d \<and> d < hi + (hi - lo)"
  then have "lo = - hi" and "lo \<le> periodic_image lo hi d \<and> periodic_image lo hi d < hi"
    using periodic_image_centred_range [of lo hi d] by simp_all
  then show "\<bar>periodic_image lo hi d\<bar> \<le> (hi - lo) / 2"
    by (auto simp add: abs_le_iff)
next
  assume h: "lo = - hi \<and> lo \<le> a \<and> a < hi \<and> lo \<le> b \<and> b < hi"
  then have "lo - (hi - lo) \<le> a - b" and "a - b < hi + (hi - lo)"
    by simp_all
  with h have "lo = - hi" and "lo \<le> periodic_image lo hi (a - b) \<and> periodic_image lo hi (a - b) < hi"
    using periodic_image_centred_range [of lo hi "a - b"] by simp_all
  then show "\<bar>periodic_image lo hi (a - b)\<bar> \<le> (hi - lo) / 2"
    by (auto simp add: abs_le_iff)
next
  show "(\<exists>e s'. pair_step ev arrays box third_law p j acc s = (Inl e, s'))
        \<longleftrightarrow> \<not> (j < nparticles arrays \<and> arr_type arrays ! j < ntypes s)"
    by (rule pair_step_fails_iff)
qed

theorem minimum_image_rule_witness:
  "((- 5::real) = - 5 \<and> (- 5::real) \<le> 4 \<and> (4::real) < 5 \<and> (- 5::real) \<le> - 3 \<and> (- 3::real) < 5)
   \<and> \<bar>periodic_image (- 5) 5 (4 - (- 3))\<bar> \<le> (5 - (- 5)) / 2
   \<and> periodic_image (- 5) 5 (4 - (- 3)) = - 3
   \<and> periodic_image (- 5) 5 (- 7) = 3
   \<and> periodic_image (- 5) 5 5 = - 5"
proof -
  have p1: "(- 5::real) = - 5 \<and> (- 5::real) \<le> 4 \<and> (4::real) < 5 \<and> (- 5::real) \<le> - 3 \<and> (- 3::real) < 5"
    by simp
  have p2: "(5::real) \<le> 4 - (- 3)" by simp
  have p3: "(- 7::real) < 5 \<and> (- 7::real) < - 5" by simp
  have p4: "(5::real) \<le> 5" by simp
  from minimum_image_rule [where lo = "- 5" and hi = 5 and d = "4 - (- 3)" and a = 4 and b = "- 3"]
    p1 p2
  have a: "\<bar>periodic_image (- 5) 5 (4 - (- 3))\<bar> \<le> (5 - (- 5)) / 2"
    and b: "periodic_image (- 5) 5 (4 - (- 3)) = 4 - (- 3) - (5 - (- 5))"
    by blast+
  from minimum_image_rule [where lo = "- 5" and hi = 5 and d = "- 7"] p3
  have c: "periodic_image (- 5) 5 (- 7) = - 7 + (5 - (- 5))"
    by blast
  from minimum_image_rule [where lo = "- 5" and hi = 5 and d = 5] p4
  have d: "periodic_image (- 5) 5 5 = 5 - (5 - (- 5))"
    by blast
  from a b c d show ?thesis by simp
qed

text \<open>
  The bound of claim C4 does not follow from the box being at least twice the cutoff:
  with cutoff 3, a box from 0 to 10 and particles at 9.5 and 1 (both inside), the
  corrected offset is 8.5, above half the box length 5; and in the centred box from -5 to
  5 a particle at 16 has the corrected offset 6 from a particle at 0.
\<close>

theorem minimum_image_bound_counterexample:
  "2 * 3 \<le> xhi (cube_box 0 10) - xlo (cube_box 0 10)
   \<and> pair_rcutsq (one_type_engine trivial_law 2 () no_shift 3 0) 0 0 = 3 * 3
   \<and> fst (pair_dr (particles_on_x_axis [19 / 2, 1] [0, 0]) (cube_box 0 10)
            (load_particle (trivial_law :: unit evaluator) (particles_on_x_axis [19 / 2, 1] [0, 0]) 0) 1)
        = 17 / 2
   \<and> \<not> \<bar>fst (pair_dr (particles_on_x_axis [19 / 2, 1] [0, 0]) (cube_box 0 10)
            (load_particle (trivial_law :: unit evaluator) (particles_on_x_axis [19 / 2, 1] [0, 0]) 0) 1)\<bar>
        \<le> (xhi (cube_box 0 10) - xlo (cube_box 0 10)) / 2
   \<and> 2 * 3 \<le> xhi (cube_box (- 5) 5) - xlo (cube_box (- 5) 5)
   \<and> fst (pair_dr (particles_on_x_axis [16, 0] [0, 0]) (cube_box (- 5) 5)
            (load_particle (trivial_law :: unit evaluator) (particles_on_x_axis [16, 0] [0, 0]) 0) 1)
        = 6
   \<and> \<not> \<bar>fst (pair_dr (particles_on_x_axis [16, 0] [0, 0]) (cube_box (- 5) 5)
            (load_particle (trivial_law :: unit evaluator) (particles_on_x_axis [16, 0] [0, 0]) 0) 1)\<bar>
        \<le> (xhi (cube_box (- 5) 5) - xlo (cube_box (- 5) 5)) / 2"
  by (simp add: engine_defs system_defs loop_defs)

subsection \<open>What the evaluator is given\<close>

text \<open>
  Claim C2 does not hold of the code for the charges. For two particles with charges 3
  and 5 and a law that needs the charge but not the diameter, the charge 3 is read, but
  the evaluator object receives \<open>setCharge(di, dj)\<close>, here \<open>(0, 0)\<close>, so the interaction is
  \<open>(0, 0)\<close> where the charges \<open>(3, 5)\<close> give \<open>(15, 15)\<close>, and the computed forces are zero.
\<close>

theorem charge_law_receives_diameters:
  "reg_q (load_particle charge_law (particles_on_x_axis [0, 1] [3, 5]) 0) = 3
   \<and> make_evaluator charge_law 1 4 () 0 0 3 5
        = \<lparr> ev_rsq = 1, ev_rcutsq = 4, ev_param = (), ev_diameter = None, ev_charge = Some (0, 0) \<rparr>
   \<and> pair_interaction charge_law (particles_on_x_axis [0, 1] [3, 5]) (cube_box (- 5) 5)
        (load_particle charge_law (particles_on_x_axis [0, 1] [3, 5]) 0) 1
        (one_type_engine charge_law 2 () no_shift 2 0) = Inr (0, 0)
   \<and> evalForceAndEnergy charge_law
        \<lparr> ev_rsq = 1, ev_rcutsq = 4, ev_param = (), ev_diameter = None, ev_charge = Some (3, 5) \<rparr>
        False = (15, 15)
   \<and> computeForces charge_law \<lparr>getStorageMode = half, getList = (\<lambda>t. [[1], []])\<rparr>
        (particles_on_x_axis [0, 1] [3, 5]) (cube_box (- 5) 5) 0
        (one_type_engine charge_law 2 () no_shift 2 0)
      = (Inr (), one_type_engine charge_law 2 () no_shift 2 0)
   \<and> m_fx (one_type_engine charge_law 2 () no_shift 2 0) = [0, 0]"
  by (simp add: engine_defs system_defs loop_defs charge_law_def)

subsection \<open>The third law\<close>





subsection \<open>The force computation succeeds when the assertions hold\<close>

lemma pair_step_ntypes:
  "pair_step ev arrays box third_law p j acc s = (r, s') \<Longrightarrow> ntypes s' = ntypes s"
  by (auto simp add: pair_step_def Let_def split: if_splits sum.splits prod.splits)

lemma pair_step_succeeds:
  assumes "j < nparticles arrays" and "arr_type arrays ! j < ntypes s"
  shows "\<exists>acc' s'. pair_step ev arrays box third_law p j acc s = (Inr acc', s')"
proof -
  obtain r s' where rs: "pair_step ev arrays box third_law p j acc s = (r, s')"
    by (cases "pair_step ev arrays box third_law p j acc s")
  show ?thesis
  proof (cases r)
    case (Inl e)
    with rs have "\<exists>e s'. pair_step ev arrays box third_law p j acc s = (Inl e, s')" by blast
    then show ?thesis using assms pair_step_fails_iff [of ev arrays box third_law p j acc s] by simp
  next
    case (Inr a)
    with rs show ?thesis by blast
  qed
qed

lemma neighbor_loop_succeeds:
  assumes "\<forall>j \<in> set js. j < nparticles arrays \<and> arr_type arrays ! j < ntypes s"
  shows "\<exists>acc' s'. neighbor_loop ev arrays box third_law p js acc s = (Inr acc', s')
           \<and> ntypes s' = ntypes s"
  using assms
proof (induction js arbitrary: acc s)
  case Nil
  then show ?case by simp
next
  case (Cons j js)
  then have "j < nparticles arrays" and "arr_type arrays ! j < ntypes s" by simp_all
  then obtain acc1 s1 where st: "pair_step ev arrays box third_law p j acc s = (Inr acc1, s1)"
    using pair_step_succeeds by blast
  then have nt: "ntypes s1 = ntypes s" by (rule pair_step_ntypes)
  with Cons.prems have "\<forall>j \<in> set js. j < nparticles arrays \<and> arr_type arrays ! j < ntypes s1"
    by simp
  from Cons.IH [OF this, of acc1] nt st show ?case by simp
qed

lemma particle_step_succeeds:
  assumes "arr_type arrays ! i < ntypes s"
    and "\<forall>j \<in> set (full_list ! i). j < nparticles arrays \<and> arr_type arrays ! j < ntypes s"
  shows "\<exists>s'. particle_step ev arrays box third_law full_list i s = (Inr (), s')
           \<and> ntypes s' = ntypes s"
proof -
  obtain acc' s1 where
    "neighbor_loop ev arrays box third_law (load_particle ev arrays i) (full_list ! i) accum_zero s
       = (Inr acc', s1)" and "ntypes s1 = ntypes s"
    using neighbor_loop_succeeds [OF assms(2)] by blast
  then show ?thesis
    using assms(1) by (simp add: particle_step_def)
qed

lemma particle_loop_succeeds:
  assumes "asserts_hold arrays full_list s" and "\<forall>i \<in> set is. i < nparticles arrays"
  shows "\<exists>s'. particle_loop ev arrays box third_law full_list is s = (Inr (), s')"
  using assms
proof (induction "is" arbitrary: s)
  case Nil
  then show ?case by simp
next
  case (Cons i "is")
  then have i: "i < nparticles arrays" by simp
  with Cons.prems(1) have ti: "arr_type arrays ! i < ntypes s"
    and nb: "\<forall>j \<in> set (full_list ! i). j < nparticles arrays"
    by (simp_all add: asserts_hold_def)
  from nb Cons.prems(1)
  have "\<forall>j \<in> set (full_list ! i). j < nparticles arrays \<and> arr_type arrays ! j < ntypes s"
    by (simp add: asserts_hold_def)
  with ti obtain s1 where st: "particle_step ev arrays box third_law full_list i s = (Inr (), s1)"
    and nt: "ntypes s1 = ntypes s"
    using particle_step_succeeds by blast
  from Cons.prems(1) nt have "asserts_hold arrays full_list s1"
    by (simp add: asserts_hold_def)
  from Cons.IH [OF this] Cons.prems(2) st show ?case by simp
qed

lemma computeForces_succeeds:
  assumes "asserts_hold arrays (getList nlist timestep) s"
  shows "\<exists>s'. computeForces ev nlist arrays box timestep s = (Inr (), s')"
proof -
  let ?s0 = "s\<lparr> m_fx := memset_zero (nparticles arrays) (m_fx s),
                  m_fy := memset_zero (nparticles arrays) (m_fy s),
                  m_fz := memset_zero (nparticles arrays) (m_fz s),
                  m_pe := memset_zero (nparticles arrays) (m_pe s),
                  m_virial := memset_zero (nparticles arrays) (m_virial s) \<rparr>"
  have "asserts_hold arrays (getList nlist timestep) ?s0"
    using assms by (simp add: asserts_hold_def)
  moreover have "\<forall>i \<in> set [0..<nparticles arrays]. i < nparticles arrays" by simp
  ultimately show ?thesis
    unfolding computeForces_def Let_def by (rule particle_loop_succeeds)
qed

subsection \<open>Logging\<close>

lemma pair_step_length_pe:
  "pair_step ev arrays box third_law p j acc s = (r, s') \<Longrightarrow> length (m_pe s') = length (m_pe s)"
  by (auto simp add: pair_step_def Let_def split: if_splits sum.splits prod.splits)

lemma neighbor_loop_length_pe:
  "neighbor_loop ev arrays box third_law p js acc s = (r, s')
     \<Longrightarrow> length (m_pe s') = length (m_pe s)"
proof (induction js arbitrary: acc s)
  case Nil
  then show ?case by simp
next
  case (Cons j js)
  obtain r1 s1 where st: "pair_step ev arrays box third_law p j acc s = (r1, s1)"
    by (cases "pair_step ev arrays box third_law p j acc s")
  then have l: "length (m_pe s1) = length (m_pe s)" by (rule pair_step_length_pe)
  show ?case
  proof (cases r1)
    case (Inl e)
    with st Cons.prems l show ?thesis by simp
  next
    case (Inr acc1)
    with st Cons.prems have "neighbor_loop ev arrays box third_law p js acc1 s1 = (r, s')"
      by simp
    from Cons.IH [OF this] l show ?thesis by simp
  qed
qed

lemma particle_step_length_pe:
  assumes "particle_step ev arrays box third_law full_list i s = (r, s')"
  shows "length (m_pe s') = length (m_pe s)"
proof (cases "arr_type arrays ! i < ntypes s")
  case False
  with assms show ?thesis by (simp add: particle_step_def)
next
  case True
  obtain r1 s1 where nl:
    "neighbor_loop ev arrays box third_law (load_particle ev arrays i) (full_list ! i) accum_zero s
       = (r1, s1)"
    by (cases "neighbor_loop ev arrays box third_law (load_particle ev arrays i)
                 (full_list ! i) accum_zero s")
  then have "length (m_pe s1) = length (m_pe s)" by (rule neighbor_loop_length_pe)
  with assms True nl show ?thesis
    by (cases r1) (auto simp add: particle_step_def)
qed

lemma particle_loop_length_pe:
  "particle_loop ev arrays box third_law full_list is s = (r, s')
     \<Longrightarrow> length (m_pe s') = length (m_pe s)"
proof (induction "is" arbitrary: s)
  case Nil
  then show ?case by simp
next
  case (Cons i "is")
  obtain r1 s1 where st: "particle_step ev arrays box third_law full_list i s = (r1, s1)"
    by (cases "particle_step ev arrays box third_law full_list i s")
  then have l: "length (m_pe s1) = length (m_pe s)" by (rule particle_step_length_pe)
  show ?case
  proof (cases r1)
    case (Inl e)
    with st Cons.prems l show ?thesis by simp
  next
    case (Inr u)
    with st Cons.prems have "particle_loop ev arrays box third_law full_list is s1 = (r, s')"
      by simp
    from Cons.IH [OF this] l show ?thesis by simp
  qed
qed

lemma length_memset_zero: "length (memset_zero n xs) = length xs"
  by (simp add: memset_zero_def)

lemma computeForces_length_pe:
  assumes "computeForces ev nlist arrays box timestep s = (r, s')"
  shows "length (m_pe s') = length (m_pe s)"
  using particle_loop_length_pe [OF assms [unfolded computeForces_def Let_def]]
  by (simp add: length_memset_zero)

text \<open>
  Claim C9. The one provided log quantity is \<open>pair_<name>_energy\<close>. Asked for
  that name, on a system whose assertions hold, \<open>getLogValue\<close> runs the force computation
  for the timestep and returns the sum over all particles of the potential-energy
  accumulators it leaves; asked for any other name it returns the runtime error and leaves
  the object as it was, whatever the neighbour list, the particles and the box.
\<close>

theorem getLogValue_energy_sum:
  "(PotentialPair_ctor ev n N p0 = Inr s0 \<longrightarrow>
       m_log_name s0 = ''pair_'' @ getName ev @ ''_energy''
     \<and> getProvidedLogQuantities s0 = [''pair_'' @ getName ev @ ''_energy''])
   \<and> (m_log_name s = ''pair_'' @ getName ev @ ''_energy''
        \<and> quantity = ''pair_'' @ getName ev @ ''_energy''
        \<and> asserts_hold arrays (getList nlist timestep) s
        \<and> length (m_pe s) = nparticles arrays
      \<longrightarrow> (\<exists>s'. computeForces ev nlist arrays box timestep s = (Inr (), s')
               \<and> getLogValue ev nlist arrays box quantity timestep s
                   = (Inr (\<Sum>i < nparticles arrays. m_pe s' ! i), s')))
   \<and> (m_log_name s = ''pair_'' @ getName ev @ ''_energy''
        \<and> quantity \<noteq> ''pair_'' @ getName ev @ ''_energy''
      \<longrightarrow> getLogValue ev nlist arrays box quantity timestep s
            = (Inl (Runtime_error ''Error getting log value''), s))"
proof (intro conjI impI)
  assume "PotentialPair_ctor ev n N p0 = Inr s0"
  then show "m_log_name s0 = ''pair_'' @ getName ev @ ''_energy''"
    and "getProvidedLogQuantities s0 = [''pair_'' @ getName ev @ ''_energy'']"
    by (auto simp add: getProvidedLogQuantities_def PotentialPair_ctor_def split: if_splits)
next
  assume h: "m_log_name s = ''pair_'' @ getName ev @ ''_energy''
        \<and> quantity = ''pair_'' @ getName ev @ ''_energy''
        \<and> asserts_hold arrays (getList nlist timestep) s
        \<and> length (m_pe s) = nparticles arrays"
  then obtain s' where cf: "computeForces ev nlist arrays box timestep s = (Inr (), s')"
    using computeForces_succeeds by blast
  then have "length (m_pe s') = nparticles arrays"
    using h computeForces_length_pe by fastforce
  then have "sum_list (m_pe s') = (\<Sum>i < nparticles arrays. m_pe s' ! i)"
    by (simp add: sum_list_sum_nth atLeast0LessThan)
  with h cf have "getLogValue ev nlist arrays box quantity timestep s
                   = (Inr (\<Sum>i < nparticles arrays. m_pe s' ! i), s')"
    by (simp add: getLogValue_def compute_def calcEnergySum_def)
  with cf show "\<exists>s'. computeForces ev nlist arrays box timestep s = (Inr (), s')
               \<and> getLogValue ev nlist arrays box quantity timestep s
                   = (Inr (\<Sum>i < nparticles arrays. m_pe s' ! i), s')"
    by blast
next
  assume "m_log_name s = ''pair_'' @ getName ev @ ''_energy''
        \<and> quantity \<noteq> ''pair_'' @ getName ev @ ''_energy''"
  then show "getLogValue ev nlist arrays box quantity timestep s
            = (Inl (Runtime_error ''Error getting log value''), s)"
    by (simp add: getLogValue_def)
qed

theorem getLogValue_energy_sum_witness:
  "(m_log_name (one_type_engine trivial_law 2 () no_shift 2 0)
       = ''pair_'' @ getName (trivial_law :: unit evaluator) @ ''_energy''
    \<and> asserts_hold (particles_on_x_axis [0, 1] [0, 0])
         (getList \<lparr>getStorageMode = half, getList = (\<lambda>t. [[1], []])\<rparr> 0)
         (one_type_engine trivial_law 2 () no_shift 2 0)
    \<and> length (m_pe (one_type_engine trivial_law 2 () no_shift 2 0))
         = nparticles (particles_on_x_axis [0, 1] [0, 0]))
   \<and> fst (getLogValue trivial_law \<lparr>getStorageMode = half, getList = (\<lambda>t. [[1], []])\<rparr>
            (particles_on_x_axis [0, 1] [0, 0]) (cube_box (- 5) 5) ''pair_trivial_energy'' 0
            (one_type_engine trivial_law 2 () no_shift 2 0)) = Inr (- 1)
   \<and> getLogValue trivial_law \<lparr>getStorageMode = half, getList = (\<lambda>t. [[1], []])\<rparr>
        (particles_on_x_axis [0, 1] [0, 0]) (cube_box (- 5) 5) ''pair_lj_energy'' 0
        (one_type_engine trivial_law 2 () no_shift 2 0)
      = (Inl (Runtime_error ''Error getting log value''),
         one_type_engine trivial_law 2 () no_shift 2 0)"
proof -
  let ?A = "particles_on_x_axis [0, 1] [0, 0]"
  let ?B = "cube_box (- 5) 5"
  let ?N = "\<lparr>getStorageMode = half, getList = (\<lambda>t. [[1], []])\<rparr>"
  let ?S = "one_type_engine (trivial_law :: unit evaluator) 2 () no_shift 2 0"
  have nm: "m_log_name ?S = ''pair_'' @ getName (trivial_law :: unit evaluator) @ ''_energy''"
    by (simp add: engine_defs)
  have q: "''pair_trivial_energy'' = ''pair_'' @ getName (trivial_law :: unit evaluator) @ ''_energy''"
    "''pair_lj_energy'' \<noteq> ''pair_'' @ getName (trivial_law :: unit evaluator) @ ''_energy''"
    by (simp_all add: trivial_law_def)
  have ah: "asserts_hold ?A (getList ?N 0) ?S"
    by (simp add: asserts_hold_def system_defs engine_defs less_Suc_eq)
  have ln: "length (m_pe ?S) = nparticles ?A"
    by (simp add: engine_defs system_defs)
  note inst = getLogValue_energy_sum
    [where ev = "trivial_law :: unit evaluator" and s = ?S and arrays = ?A and nlist = ?N
       and timestep = 0 and box = ?B]
  from inst [where quantity = "''pair_trivial_energy''"] nm q(1) ah ln
  obtain s' where cf: "computeForces trivial_law ?N ?A ?B 0 ?S = (Inr (), s')"
    and lv: "getLogValue trivial_law ?N ?A ?B ''pair_trivial_energy'' 0 ?S
               = (Inr (\<Sum>i < nparticles ?A. m_pe s' ! i), s')"
    by blast
  have "computeForces trivial_law ?N ?A ?B 0 ?S
          = (Inr (), ?S\<lparr>m_fx := [- 2, 2], m_pe := [- (1 / 2), - (1 / 2)],
                         m_virial := [1 / 3, 1 / 3]\<rparr>)"
    by (simp add: engine_defs system_defs loop_defs)
  with cf have "m_pe s' = [- (1 / 2), - (1 / 2)]" by auto
  then have "(\<Sum>i < nparticles ?A. m_pe s' ! i) = - 1"
    by (simp add: system_defs lessThan_Suc)
  with lv have a: "fst (getLogValue trivial_law ?N ?A ?B ''pair_trivial_energy'' 0 ?S) = Inr (- 1)"
    by simp
  from inst [where quantity = "''pair_lj_energy''"] nm q(2)
  have b: "getLogValue trivial_law ?N ?A ?B ''pair_lj_energy'' 0 ?S
             = (Inl (Runtime_error ''Error getting log value''), ?S)"
    by blast
  from nm ah ln a b show ?thesis by blast
qed

end
